theory Spec2Isabelle
  imports
    Main
    "HOL-Library.Sublist"
    "HOL-Library.Char_ord"
    "HOL-Library.List_Lexorder"
    "HOL-Library.Multiset"
begin

section \<open>The schema model read by tools/cmd/genjwk/main.go\<close>

text \<open>
  The generator works on the field and object descriptions of package
  \<^verbatim>\<open>github.com/lestrrat-go/codegen\<close>. A field is used through its methods only:
  \<^verbatim>\<open>f.Name(true)\<close> (exported spelling), \<^verbatim>\<open>f.Name(false)\<close> (the name of the struct
  member), \<^verbatim>\<open>f.Type()\<close>, \<^verbatim>\<open>f.JSON()\<close>, \<^verbatim>\<open>f.IsRequired()\<close> and the boolean extras
  \<^verbatim>\<open>f.Bool(`is_std`)\<close>, \<^verbatim>\<open>f.Bool(`hasGet`)\<close>, \<^verbatim>\<open>f.Bool(`hasAccept`)\<close>. A record
  holds what each method returns. Go strings are byte strings and are compared
  bytewise; they are \<^typ>\<open>string\<close> here, ordered lexicographically by character code.
\<close>

record Field =
  Name_exported :: string
  Name_unexported :: string
  Type :: string
  JSON :: string
  IsRequired :: bool
  is_std :: bool
  hasGet :: bool
  hasAccept :: bool

text \<open>
  Of an object the generator reads \<^verbatim>\<open>obj.Name(true)\<close>, \<^verbatim>\<open>obj.Fields()\<close> and
  \<^verbatim>\<open>obj.MustString(`raw_key_type`)\<close>; the last one panics when the schema does not
  give the attribute, which is \<^term>\<open>None\<close> here.
\<close>

record Object =
  ObjName :: string
  raw_key_type :: "string option"
  Fields :: "Field list"

text \<open>The struct \<^verbatim>\<open>KeyType\<close> (lines 46-51) and the struct \<^verbatim>\<open>Constant\<close> (lines 113-116).\<close>

record KeyType =
  Filename :: string
  Prefix :: string
  KeyType :: string
  Objects :: "Object list"

record Constant =
  Name :: string
  Value :: string

section \<open>Storage types (lines 95-111)\<close>

definition IsPointer :: "Field \<Rightarrow> bool" where
  "IsPointer f = prefix ''*'' (Type f)"

definition TrimPrefix :: "string \<Rightarrow> string \<Rightarrow> string" where
  "TrimPrefix s p = (if prefix p s then drop (length p) s else s)"

definition PointerElem :: "Field \<Rightarrow> string" where
  "PointerElem f = TrimPrefix (Type f) ''*''"

definition fieldStorageTypeIsIndirect :: "string \<Rightarrow> bool" where
  "fieldStorageTypeIsIndirect s =
     (s = ''KeyOperationList'' \<or> \<not> (prefix ''*'' s \<or> prefix ''[]'' s \<or> suffix ''List'' s))"

definition fieldStorageType :: "string \<Rightarrow> string" where
  "fieldStorageType s = (if fieldStorageTypeIsIndirect s then ''*'' @ s else s)"

text \<open>
  The reading of a type name that the specification uses: a reference type is written
  with a leading \<^verbatim>\<open>*\<close>, a byte sequence or another slice with a leading \<^verbatim>\<open>[]\<close>, and a
  named list type ends in \<^verbatim>\<open>List\<close>.
\<close>

definition is_reference_type :: "string \<Rightarrow> bool" where
  "is_reference_type s = prefix ''*'' s"

definition is_list_type :: "string \<Rightarrow> bool" where
  "is_list_type s = (prefix ''[]'' s \<or> suffix ''List'' s)"

section \<open>Constant derivation in generateKeyType (lines 118-164)\<close>

text \<open>
  The two nested loops of lines 127-140 carry the set \<^verbatim>\<open>seen\<close> and the slice
  \<^verbatim>\<open>constants\<close>. A standard field and a field whose exported name was seen before are
  skipped by \<^verbatim>\<open>continue\<close>; no branch of the loops returns an error.
\<close>

fun scan_fields ::
  "string \<Rightarrow> Field list \<Rightarrow> string set \<times> Constant list \<Rightarrow> string set \<times> Constant list" where
  "scan_fields p [] st = st"
| "scan_fields p (f # fs) (seen, constants) =
     (if is_std f then scan_fields p fs (seen, constants)
      else if Name_exported f \<in> seen then scan_fields p fs (seen, constants)
      else scan_fields p fs
             (insert (Name_exported f) seen,
              constants @ [\<lparr>Name = p @ Name_exported f @ ''Key'', Value = JSON f\<rparr>]))"

fun scan_objects ::
  "string \<Rightarrow> Object list \<Rightarrow> string set \<times> Constant list \<Rightarrow> string set \<times> Constant list" where
  "scan_objects p [] st = st"
| "scan_objects p (obj # objs) st = scan_objects p objs (scan_fields p (Fields obj) st)"

definition collected_constants :: "KeyType \<Rightarrow> Constant list" where
  "collected_constants kt = snd (scan_objects (Prefix kt) (Objects kt) ({}, []))"

text \<open>
  \<^verbatim>\<open>sort.Slice\<close> with the comparison \<^verbatim>\<open>constants[i].Name < constants[j].Name\<close> (lines
  142-144). \<^verbatim>\<open>sort.Slice\<close> is not stable, but the names it sorts are pairwise distinct
  (\<open>collected_names_distinct\<close> below), so there is exactly one sorted arrangement
  (\<open>sorted_arrangement_unique\<close>) and the insertion sort of the library computes it.
\<close>

definition key_constants :: "KeyType \<Rightarrow> Constant list" where
  "key_constants kt = sort_key Name (collected_constants kt)"

text \<open>
  The lines written for the constants (lines 145-149): \<^verbatim>\<open>const (\<close>, one line
  \<^verbatim>\<open>Name = "Value"\<close> per constant, and \<^verbatim>\<open>)\<close>. The parameter \<open>q\<close> is the quoting that the
  verb \<^verbatim>\<open>%q\<close> of package fmt applies to the value.
\<close>

definition emit_constants :: "(string \<Rightarrow> string) \<Rightarrow> Constant list \<Rightarrow> string list" where
  "emit_constants q cs = [''const (''] @ map (\<lambda>c. Name c @ '' = '' @ q (Value c)) cs @ ['')'']"

text \<open>
  generateObject (lines 166-602) writes the text of one variant and ends in
  \<^verbatim>\<open>return nil\<close>; it stops early only when \<^verbatim>\<open>MustString\<close> panics (line 179). Its text is
  modelled further below by the behaviour of the methods it writes.
\<close>

datatype gen_error =
  Panic_MustString string
  | Failed_to_generate_object string
  | Failed_to_write string

definition generateObject :: "KeyType \<Rightarrow> Object \<Rightarrow> gen_error option" where
  "generateObject kt obj =
     (case raw_key_type obj of None \<Rightarrow> Some (Panic_MustString (ObjName obj)) | Some t \<Rightarrow> None)"

fun generateObjects :: "KeyType \<Rightarrow> Object list \<Rightarrow> gen_error option" where
  "generateObjects kt [] = None"
| "generateObjects kt (obj # objs) =
     (case generateObject kt obj of
        Some (Panic_MustString n) \<Rightarrow> Some (Panic_MustString n)
      | Some e \<Rightarrow> Some (Failed_to_generate_object (ObjName obj))
      | None \<Rightarrow> generateObjects kt objs)"

text \<open>
  generateKeyType: the constants, then every object, then \<^verbatim>\<open>o.WriteFile\<close> (lines
  157-162), whose success is the parameter \<open>write_ok\<close>. On success the result is the
  constant block that was written.
\<close>

definition generateKeyType ::
  "(string \<Rightarrow> string) \<Rightarrow> (KeyType \<Rightarrow> bool) \<Rightarrow> KeyType \<Rightarrow> gen_error + string list" where
  "generateKeyType q write_ok kt =
     (let block = emit_constants q (key_constants kt) in
      case generateObjects kt (Objects kt) of
        Some e \<Rightarrow> Inl e
      | None \<Rightarrow> if write_ok kt then Inr block else Inl (Failed_to_write (Filename kt)))"

section \<open>Storage indirection\<close>

lemma suffix_List_KeyOperationList: "suffix ''List'' ''KeyOperationList''"
  by (simp add: suffix_to_prefix)

text \<open>
  C2, as stated: storage is indirect exactly when the type is neither a reference type
  nor a list type. The type \<^verbatim>\<open>KeyOperationList\<close> is a list type and is stored
  indirectly all the same, by the first disjunct of line 110.
\<close>

theorem storage_indirect_KeyOperationList_counterexample:
  "\<not> (fieldStorageTypeIsIndirect ''KeyOperationList'' \<longleftrightarrow>
        \<not> is_reference_type ''KeyOperationList'' \<and> \<not> is_list_type ''KeyOperationList'')"
  using suffix_List_KeyOperationList
  by (simp add: fieldStorageTypeIsIndirect_def is_list_type_def)

text \<open>
  C2, amended: storage is indirect exactly when the type is \<^verbatim>\<open>KeyOperationList\<close>, or is
  neither a reference type nor a list type; a type stored indirectly gets the storage
  type \<^verbatim>\<open>*T\<close>, every other type is stored as it is; and the storage type of every field
  other than \<^verbatim>\<open>KeyOperationList\<close> is a reference or a list type, so that it has an empty
  value of its own.
\<close>

theorem storage_indirection_rule:
  "(fieldStorageTypeIsIndirect s \<longleftrightarrow>
      s = ''KeyOperationList'' \<or> (\<not> is_reference_type s \<and> \<not> is_list_type s))
   \<and> fieldStorageType s = (if fieldStorageTypeIsIndirect s then ''*'' @ s else s)
   \<and> (is_reference_type (fieldStorageType s) \<or> is_list_type (fieldStorageType s))"
  by (auto simp: fieldStorageTypeIsIndirect_def fieldStorageType_def is_reference_type_def
      is_list_type_def)

theorem storage_indirection_rule_witness:
  "fieldStorageTypeIsIndirect ''string'' \<and> fieldStorageType ''string'' = ''*string''
   \<and> \<not> fieldStorageTypeIsIndirect ''[]byte'' \<and> fieldStorageType ''[]byte'' = ''[]byte''
   \<and> fieldStorageType ''KeyOperationList'' = ''*KeyOperationList''"
  using storage_indirection_rule [of "''string''"] storage_indirection_rule [of "''[]byte''"]
    storage_indirection_rule [of "''KeyOperationList''"]
  by (simp add: is_reference_type_def is_list_type_def suffix_to_prefix)

end
